theory Spec2Isabelle
  imports Complex_Main "HOL-Library.Word"
begin

section \<open>The thumbnail control of indra/newview/llthumbnailctrl.cpp\<close>

text \<open>
  The widget is glue over collaborators that live outside the file: the LLSD value type,
  LLUUID, the texture manager, the UI image registry, the drawing layer, the host window
  and the LLUICtrl base class. The model keeps the widget's own members as a record, the
  fetched textures in a store indexed by handle (the handles are shared), and every call
  into the drawing layer and the host window as an entry of a call log. What the
  collaborators answer is a parameter (the record \<open>env\<close>), so every theorem holds for
  all of them.
\<close>

subsection \<open>Values: LLUUID and LLSD\<close>

type_synonym LLUUID = "128 word"

definition LLUUID_null :: LLUUID where
  "LLUUID_null = 0"

definition notNull :: "LLUUID \<Rightarrow> bool" where
  "notNull u \<longleftrightarrow> u \<noteq> LLUUID_null"

text \<open>The variants of LLSD. F64 payloads are idealised as reals.\<close>

datatype LLSD =
    SDUndefined
  | SDBoolean bool
  | SDInteger int
  | SDReal real
  | SDString string
  | SDUUID LLUUID
  | SDDate real
  | SDURI string
  | SDBinary "8 word list"
  | SDMap "(string \<times> LLSD) list"
  | SDArray "LLSD list"

fun isString :: "LLSD \<Rightarrow> bool" where
  "isString (SDString s) = True"
| "isString _ = False"

fun isUUID :: "LLSD \<Rightarrow> bool" where
  "isUUID (SDUUID u) = True"
| "isUUID _ = False"

text \<open>
  \<open>asString\<close> and \<open>asUUID\<close> are the accessors on the variant they are called on in
  this file (always under \<open>isString\<close>, respectively \<open>isUUID\<close>); the conversions LLSD
  performs from the other variants are not needed and are left at the empty value.
\<close>

fun asString :: "LLSD \<Rightarrow> string" where
  "asString (SDString s) = s"
| "asString _ = []"

fun asUUID :: "LLSD \<Rightarrow> LLUUID" where
  "asUUID (SDUUID u) = u"
| "asUUID _ = LLUUID_null"

subsection \<open>Geometry and colours\<close>

text \<open>S32 coordinates are unbounded integers here: no claim depends on overflow.\<close>

record LLRect =
  mLeft :: int
  mTop :: int
  mRight :: int
  mBottom :: int

definition getWidth :: "LLRect \<Rightarrow> int" where
  "getWidth r = mRight r - mLeft r"

definition getHeight :: "LLRect \<Rightarrow> int" where
  "getHeight r = mTop r - mBottom r"

text \<open>
  Modelled from the spec: \<open>LLRect::stretch\<close> (llrect.h is not under src/). The spec has
  \<open>stretch(-1)\<close> shrink the rectangle by one pixel on each side.
\<close>

definition stretch :: "int \<Rightarrow> LLRect \<Rightarrow> LLRect" where
  "stretch delta r =
     r\<lparr>mLeft := mLeft r - delta, mTop := mTop r + delta,
       mRight := mRight r + delta, mBottom := mBottom r - delta\<rparr>"

text \<open>
  Colours stay symbolic: the named constants of v4color.h, an explicit RGBA value, and
  \<open>ModAlpha c k\<close> for the source's \<open>c % k\<close>. F32 is idealised as real.
\<close>

datatype LLColor4 =
    UI_VERTEX_COLOR
  | LLColor4_grey
  | LLColor4_black
  | LLColor4_white
  | Color4 real real real real
  | ModAlpha LLColor4 real

subsection \<open>Textures and images\<close>

datatype EBoostLevel = BOOST_NONE | BOOST_PREVIEW | BOOST_UI | BOOST_OTHER nat

datatype FTType = FTT_DEFAULT | FTT_OTHER nat

datatype ETexType = LOD_TEXTURE | TEX_OTHER nat

definition MIPMAP_YES :: bool where
  "MIPMAP_YES = True"

type_synonym tex_handle = nat

text \<open>
  The part of a fetched texture the widget reads or writes. The fields read through
  \<open>getWidth\<close>, \<open>getHeight\<close>, \<open>getComponents\<close>, \<open>isFullyLoaded\<close>, \<open>getDiscardLevel\<close> and
  \<open>getID\<close> carry the getter's name.
\<close>

record LLViewerFetchedTexture =
  getID :: LLUUID
  tex_getWidth :: int
  tex_getHeight :: int
  getComponents :: int
  isFullyLoaded :: bool
  getDiscardLevel :: int
  mBoostLevel :: EBoostLevel
  mForceToSaveRawImage :: bool
  mDesiredSavedRawDiscardLevel :: int
  mKnownDrawWidth :: int
  mKnownDrawHeight :: int

text \<open>
  Modelled from the spec: the three setters of the fetched texture (llviewertexture.cpp
  is not under src/). The spec has them set the handle's boost level, request that the
  raw image be retained at the given discard level, and set the known draw size.
\<close>

definition setBoostLevel :: "EBoostLevel \<Rightarrow> LLViewerFetchedTexture \<Rightarrow> LLViewerFetchedTexture" where
  "setBoostLevel level t = t\<lparr>mBoostLevel := level\<rparr>"

definition forceToSaveRawImage :: "int \<Rightarrow> LLViewerFetchedTexture \<Rightarrow> LLViewerFetchedTexture" where
  "forceToSaveRawImage desired_discard t =
     t\<lparr>mForceToSaveRawImage := True, mDesiredSavedRawDiscardLevel := desired_discard\<rparr>"

definition setKnownDrawSize :: "int \<Rightarrow> int \<Rightarrow> LLViewerFetchedTexture \<Rightarrow> LLViewerFetchedTexture" where
  "setKnownDrawSize width height t = t\<lparr>mKnownDrawWidth := width, mKnownDrawHeight := height\<rparr>"

text \<open>
  A UI image holds a pointer to an \<open>LLTexture\<close>, which may be null and whose dynamic
  type may or may not be a fetched texture; \<open>dynamic_cast_fetched\<close> is the source's
  \<open>dynamic_cast<LLViewerFetchedTexture*>(mImagep->getImage().get())\<close>.
\<close>

datatype LLTexture = FetchedTexture tex_handle | OtherTexture

record LLUIImage =
  getName :: string
  getImage :: "LLTexture option"

fun dynamic_cast_fetched :: "LLTexture option \<Rightarrow> tex_handle option" where
  "dynamic_cast_fetched (Some (FetchedTexture h)) = Some h"
| "dynamic_cast_fetched _ = None"

subsection \<open>The widget and its surroundings\<close>

datatype ETypeTransparency = TT_DEFAULT | TT_ACTIVE | TT_INACTIVE | TT_FADING

datatype ECursorType = UI_CURSOR_ARROW | UI_CURSOR_HAND | UI_CURSOR_OTHER nat

datatype LLFontGL_flag = LEFT | BASELINE | DROP_SHADOW

record LLViewBorder =
  border_name :: string
  border_rect :: LLRect
  mHasKeyboardFocus :: bool

text \<open>
  Modelled from the spec: \<open>LLViewBorder::setKeyboardFocusHighlight\<close> (llviewborder.cpp
  is not under src/): the border child is told whether the widget has keyboard focus.
\<close>

definition setKeyboardFocusHighlight :: "bool \<Rightarrow> LLViewBorder \<Rightarrow> LLViewBorder" where
  "setKeyboardFocusHighlight b bd = bd\<lparr>mHasKeyboardFocus := b\<rparr>"

text \<open>
  The state of the base class \<open>LLUICtrl\<close> that the file reads, each field under the
  name of the getter it is read through (\<open>getValue\<close> is the value stored by
  \<open>LLUICtrl::setValue\<close>), and the members \<open>LLThumbnailCtrl\<close> adds to it.
\<close>

record LLUICtrl =
  getValue :: LLSD
  getLocalRect :: LLRect
  getEnabled :: bool
  hasFocus :: bool
  getTransparencyType :: ETypeTransparency
  getCurrentTransparency :: real

record LLThumbnailCtrl = LLUICtrl +
  mBorderColor :: LLColor4
  mBorderVisible :: bool
  mInteractable :: bool
  mShowLoadingPlaceholder :: bool
  mPriority :: EBoostLevel
  mLoadingPlaceholderString :: string
  mBorder :: LLViewBorder
  mImageAssetID :: LLUUID
  mTexturep :: "tex_handle option"
  mImagep :: "LLUIImage option"

text \<open>The calls the widget makes into the drawing layer, the font system, the base
  class's draw and the host window, with their arguments in the source's order.\<close>

datatype call =
    gl_rect_2d LLRect LLColor4 bool
  | gl_rect_2d_checkerboard LLRect real
  | gl_draw_scaled_image int int int int "tex_handle option" LLColor4
  | LLUIImage_draw LLUIImage LLRect LLColor4
  | gl_draw_x LLRect LLColor4
  | renderUTF8 string int int int LLColor4 LLFontGL_flag LLFontGL_flag LLFontGL_flag
  | LLUICtrl_draw
  | setCursor ECursorType

record world =
  ctrl :: LLThumbnailCtrl
  textures :: "tex_handle \<Rightarrow> LLViewerFetchedTexture"
  calls :: "call list"

text \<open>
  What the collaborators answer. \<open>getFetchedTexture\<close> returns a handle, never null
  (the spec's interface gives it the result type handle and \<open>getUIImage\<close> the result
  type handle-or-null), and may change the texture store, for instance by creating the
  texture. \<open>LLUICtrl_handleHover\<close> is the base class's hover handler; modelled from the
  spec (lluictrl.cpp is not under src/), it reports a boolean and leaves the cursor alone.
  \<open>llfloor\<close> stands for the conversion of an integer to F32 followed by \<open>llfloor\<close>
  (llmath.h is not under src/), which gives the S32 that \<open>renderUTF8\<close> receives: it
  is the identity only where F32 is exact and the result fits an S32.
\<close>

record env =
  LLUUID_validate :: "string \<Rightarrow> bool"
  LLUUID_of_string :: "string \<Rightarrow> LLUUID"
  getFetchedTexture ::
    "LLUUID \<Rightarrow> FTType \<Rightarrow> bool \<Rightarrow> EBoostLevel \<Rightarrow> ETexType \<Rightarrow>
     (tex_handle \<Rightarrow> LLViewerFetchedTexture) \<Rightarrow>
     tex_handle \<times> (tex_handle \<Rightarrow> LLViewerFetchedTexture)"
  getUIImage :: "string \<Rightarrow> EBoostLevel \<Rightarrow> LLUIImage option"
  LLTrans_getString :: "string \<Rightarrow> string"
  gAgent_isGodlike :: bool
  LLUICtrl_handleHover :: "int \<Rightarrow> int \<Rightarrow> nat \<Rightarrow> bool"
  llfloor :: "int \<Rightarrow> int"

subsection \<open>Errors and pointer dereference\<close>

text \<open>
  \<open>mTexturep\<close> and \<open>mImagep\<close> are nullable pointers. A call through a null pointer is
  the one way the file's code can fail; it is the error value of the model.
\<close>

datatype error = NullPointerDereference

definition bind_result :: "error + 'a \<Rightarrow> ('a \<Rightarrow> error + 'b) \<Rightarrow> error + 'b" where
  "bind_result r f = (case r of Inl e \<Rightarrow> Inl e | Inr x \<Rightarrow> f x)"

text \<open>\<open>mTexturep->m(...)\<close> for a setter \<open>m\<close>, and for a getter.\<close>

definition mTexturep_call ::
  "(LLViewerFetchedTexture \<Rightarrow> LLViewerFetchedTexture) \<Rightarrow> world \<Rightarrow> error + world" where
  "mTexturep_call m w =
     (case mTexturep (ctrl w) of
        None \<Rightarrow> Inl NullPointerDereference
      | Some h \<Rightarrow> Inr (w\<lparr>textures := (textures w)(h := m (textures w h))\<rparr>))"

definition mTexturep_get :: "(LLViewerFetchedTexture \<Rightarrow> 'a) \<Rightarrow> world \<Rightarrow> error + 'a" where
  "mTexturep_get g w =
     (case mTexturep (ctrl w) of
        None \<Rightarrow> Inl NullPointerDereference
      | Some h \<Rightarrow> Inr (g (textures w h)))"

subsection \<open>setValue\<close>

definition LLUICtrl_setValue :: "LLSD \<Rightarrow> world \<Rightarrow> world" where
  "LLUICtrl_setValue v w = w\<lparr>ctrl := (ctrl w)\<lparr>getValue := v\<rparr>\<rparr>"

definition setValue :: "env \<Rightarrow> LLSD \<Rightarrow> world \<Rightarrow> error + world" where
  "setValue e val w =
     (let tvalue =
            (if isString val \<and> LLUUID_validate e (asString val)
             then SDUUID (LLUUID_of_string e (asString val))
             else val);
          w1 = LLUICtrl_setValue tvalue w;
          w2 = w1\<lparr>ctrl := (ctrl w1)\<lparr>mImageAssetID := LLUUID_null,
                                   mTexturep := None, mImagep := None\<rparr>\<rparr>
      in if isUUID tvalue then
           (let w3 = w2\<lparr>ctrl := (ctrl w2)\<lparr>mImageAssetID := asUUID tvalue\<rparr>\<rparr>
            in if notNull (mImageAssetID (ctrl w3)) then
                 (let (h, ts) = getFetchedTexture e (mImageAssetID (ctrl w3)) FTT_DEFAULT
                                  MIPMAP_YES BOOST_NONE LOD_TEXTURE (textures w3);
                      w4 = w3\<lparr>ctrl := (ctrl w3)\<lparr>mTexturep := Some h\<rparr>, textures := ts\<rparr>
                  in bind_result (mTexturep_call (setBoostLevel (mPriority (ctrl w4))) w4) (\<lambda>w5.
                     bind_result (mTexturep_call (forceToSaveRawImage 0) w5) (\<lambda>w6.
                     bind_result (mTexturep_get tex_getWidth w6) (\<lambda>desired_draw_width.
                     bind_result (mTexturep_get tex_getHeight w6) (\<lambda>desired_draw_height.
                     mTexturep_call (setKnownDrawSize desired_draw_width desired_draw_height) w6)))))
               else Inr w3)
         else if isString tvalue then
           (let w3 = w2\<lparr>ctrl := (ctrl w2)\<lparr>mImagep := getUIImage e (asString tvalue) BOOST_UI\<rparr>\<rparr>
            in case mImagep (ctrl w3) of
                 None \<Rightarrow> Inr w3
               | Some img \<Rightarrow>
                   (case dynamic_cast_fetched (getImage img) of
                      None \<Rightarrow> Inr w3
                    | Some texture \<Rightarrow>
                        Inr (w3\<lparr>ctrl := (ctrl w3)\<lparr>mImageAssetID := getID (textures w3 texture)\<rparr>\<rparr>)))
         else Inr w2)"

subsection \<open>draw\<close>

definition issue :: "call list \<Rightarrow> world \<Rightarrow> world" where
  "issue cs w = w\<lparr>calls := calls w @ cs\<rparr>"

text \<open>
  The rectangle and the blending factor the image is drawn with: \<open>draw_rect\<close> after the
  border step and \<open>alpha\<close>.
\<close>

definition working_rect :: "LLThumbnailCtrl \<Rightarrow> LLRect" where
  "working_rect c =
     (if mBorderVisible c then stretch (- 1) (getLocalRect c) else getLocalRect c)"

definition draw_alpha :: "LLThumbnailCtrl \<Rightarrow> real" where
  "draw_alpha c = (if getTransparencyType c = TT_ACTIVE then 1 else getCurrentTransparency c)"

text \<open>
  The text position: \<open>v_offset\<close> is a U32, so \<open>mTop - v_offset\<close> is computed modulo
  \<open>2 ^ 32\<close>, and it is that unsigned value that goes through the F32 conversion and
  \<open>llfloor\<close>. When the top of the rectangle is under 25 the value is near \<open>2 ^ 32\<close>
  and what \<open>renderUTF8\<close> receives is whatever the conversion makes of it.
\<close>

definition draw :: "env \<Rightarrow> world \<Rightarrow> error + world" where
  "draw e w =
     (let draw_rect0 = getLocalRect (ctrl w);
          w1 = (if mBorderVisible (ctrl w)
                then issue [gl_rect_2d draw_rect0 (mBorderColor (ctrl w)) False]
                       (w\<lparr>ctrl := (ctrl w)\<lparr>mBorder :=
                           setKeyboardFocusHighlight (hasFocus (ctrl w)) (mBorder (ctrl w))\<rparr>\<rparr>)
                else w);
          draw_rect = (if mBorderVisible (ctrl w) then stretch (- 1) draw_rect0 else draw_rect0);
          alpha = (if getTransparencyType (ctrl w1) = TT_ACTIVE then 1
                   else getCurrentTransparency (ctrl w1))
      in bind_result
           (if mTexturep (ctrl w1) \<noteq> None then
              bind_result (mTexturep_get getComponents w1) (\<lambda>components.
                let w2 = (if components = 4
                          then issue [gl_rect_2d_checkerboard draw_rect alpha] w1 else w1);
                    w3 = issue [gl_draw_scaled_image (mLeft draw_rect) (mBottom draw_rect)
                                  (getWidth draw_rect) (getHeight draw_rect)
                                  (mTexturep (ctrl w2)) (ModAlpha UI_VERTEX_COLOR alpha)] w2
                in mTexturep_call (setKnownDrawSize (getWidth draw_rect) (getHeight draw_rect)) w3)
            else if mImagep (ctrl w1) \<noteq> None then
              (case mImagep (ctrl w1) of
                 None \<Rightarrow> Inl NullPointerDereference
               | Some img \<Rightarrow>
                   Inr (issue [LLUIImage_draw img (getLocalRect (ctrl w1))
                                 (ModAlpha UI_VERTEX_COLOR alpha)] w1))
            else
              Inr (issue [gl_rect_2d draw_rect (ModAlpha LLColor4_grey alpha) True,
                          gl_draw_x draw_rect LLColor4_black] w1))
           (\<lambda>w4.
              bind_result
                (if mTexturep (ctrl w4) \<noteq> None \<and> mShowLoadingPlaceholder (ctrl w4) then
                   bind_result (mTexturep_get isFullyLoaded w4) (\<lambda>fully_loaded.
                     if \<not> fully_loaded then
                       (let v_offset = 25 in
                        bind_result (mTexturep_get getDiscardLevel w4) (\<lambda>discard_level.
                          if discard_level > 1 \<or> gAgent_isGodlike e then
                            Inr (issue [renderUTF8 (mLoadingPlaceholderString (ctrl w4)) 0
                                          (llfloor e (mLeft draw_rect + 3))
                                          (llfloor e ((mTop draw_rect - v_offset) mod 2 ^ 32))
                                          LLColor4_white LEFT BASELINE DROP_SHADOW] w4)
                          else Inr w4))
                     else Inr w4)
                 else Inr w4)
                (\<lambda>w5. Inr (issue [LLUICtrl_draw] w5))))"

subsection \<open>handleHover\<close>

definition handleHover :: "env \<Rightarrow> int \<Rightarrow> int \<Rightarrow> nat \<Rightarrow> world \<Rightarrow> bool \<times> world" where
  "handleHover e x y msk w =
     (if mInteractable (ctrl w) \<and> getEnabled (ctrl w)
      then (True, issue [setCursor UI_CURSOR_HAND] w)
      else (LLUICtrl_handleHover e x y msk, w))"

subsection \<open>Parameters, construction and destruction\<close>

text \<open>
  A member of a parameter block: the name it is registered under, its value (the default
  until one is provided) and whether a value was provided.
\<close>

record 'a Optional =
  opt_name :: string
  opt_value :: 'a
  isProvided :: bool

definition Optional :: "string \<Rightarrow> 'a \<Rightarrow> 'a Optional" where
  "Optional n d = \<lparr>opt_name = n, opt_value = d, isProvided = False\<rparr>"

record LLViewBorder_Params =
  vb_name :: string
  vb_rect :: LLRect

record Params =
  border :: "LLViewBorder_Params Optional"
  border_color :: "LLColor4 Optional"
  image_name :: "string Optional"
  border_visible :: "bool Optional"
  interactable :: "bool Optional"
  show_loading :: "bool Optional"

text \<open>
  \<open>LLThumbnailCtrl::Params::Params()\<close>. The members declared with a name only take the
  default of their type: the framework's defaults for the border block and the colour
  are arguments, the default string is empty.
\<close>

definition Params_Params :: "LLViewBorder_Params \<Rightarrow> LLColor4 \<Rightarrow> Params" where
  "Params_Params border_default color_default =
     \<lparr>border = Optional ''border'' border_default,
      border_color = Optional ''border_color'' color_default,
      image_name = Optional ''image_name'' [],
      border_visible = Optional ''show_visible'' False,
      interactable = Optional ''interactable'' False,
      show_loading = Optional ''show_loading'' True\<rparr>"

text \<open>
  Modelled from the spec: how the parameter framework binds a named option of a layout
  description to the block (llinitparam.h is not under src/). The option goes to the
  member registered under its name; a name no member is registered under, or a value of
  the wrong type, leaves the block as it is.
\<close>

datatype attr_value =
    AttrBool bool
  | AttrString string
  | AttrColor LLColor4
  | AttrBorder LLViewBorder_Params

definition provide :: "'a \<Rightarrow> 'a Optional \<Rightarrow> 'a Optional" where
  "provide v opt = opt\<lparr>opt_value := v, isProvided := True\<rparr>"

definition set_attribute :: "string \<Rightarrow> attr_value \<Rightarrow> Params \<Rightarrow> Params" where
  "set_attribute n v p =
     (case v of
        AttrBool b \<Rightarrow>
          if n = opt_name (border_visible p) then p\<lparr>border_visible := provide b (border_visible p)\<rparr>
          else if n = opt_name (interactable p) then p\<lparr>interactable := provide b (interactable p)\<rparr>
          else if n = opt_name (show_loading p) then p\<lparr>show_loading := provide b (show_loading p)\<rparr>
          else p
      | AttrString s \<Rightarrow>
          if n = opt_name (image_name p) then p\<lparr>image_name := provide s (image_name p)\<rparr> else p
      | AttrColor c \<Rightarrow>
          if n = opt_name (border_color p) then p\<lparr>border_color := provide c (border_color p)\<rparr> else p
      | AttrBorder b \<Rightarrow>
          if n = opt_name (border p) then p\<lparr>border := provide b (border p)\<rparr> else p)"

text \<open>
  Modelled from the spec: \<open>LLUICtrlFactory::create<LLViewBorder>\<close> (lluictrlfactory.h is
  not under src/) builds the border child from its parameters; the child exists from then
  on.
\<close>

definition create_LLViewBorder :: "LLViewBorder_Params \<Rightarrow> LLViewBorder" where
  "create_LLViewBorder vbparams =
     \<lparr>border_name = vb_name vbparams, border_rect = vb_rect vbparams,
      mHasKeyboardFocus = False\<rparr>"

text \<open>
  The constructor. \<open>base\<close> is the state the base-class constructor \<open>LLUICtrl(p)\<close>
  leaves; \<open>ts\<close> and \<open>cs\<close> are the texture store and the call log at the time of the
  construction. The two pointers start null and the identifier starts as the null
  identifier, as their default constructors leave them.
\<close>

definition LLThumbnailCtrl_ctor ::
  "env \<Rightarrow> Params \<Rightarrow> LLUICtrl \<Rightarrow> (tex_handle \<Rightarrow> LLViewerFetchedTexture) \<Rightarrow> call list \<Rightarrow>
   error + world" where
  "LLThumbnailCtrl_ctor e p base ts cs =
     (let loading = LLTrans_getString e ''texture_loading'';
          border_rect = getLocalRect base;
          vbparams = (opt_value (border p))\<lparr>vb_name := ''border'', vb_rect := border_rect\<rparr>;
          this = \<lparr>getValue = getValue base, getLocalRect = getLocalRect base,
                  getEnabled = getEnabled base, hasFocus = hasFocus base,
                  getTransparencyType = getTransparencyType base,
                  getCurrentTransparency = getCurrentTransparency base,
                  mBorderColor = opt_value (border_color p),
                  mBorderVisible = opt_value (border_visible p),
                  mInteractable = opt_value (interactable p),
                  mShowLoadingPlaceholder = opt_value (show_loading p),
                  mPriority = BOOST_PREVIEW,
                  mLoadingPlaceholderString = loading,
                  mBorder = create_LLViewBorder vbparams,
                  mImageAssetID = LLUUID_null,
                  mTexturep = None,
                  mImagep = None\<rparr>;
          w = \<lparr>ctrl = this, textures = ts, calls = cs\<rparr>
      in if isProvided (image_name p)
         then setValue e (SDString (opt_value (image_name p))) w
         else Inr w)"

definition LLThumbnailCtrl_dtor :: "world \<Rightarrow> world" where
  "LLThumbnailCtrl_dtor w = w\<lparr>ctrl := (ctrl w)\<lparr>mTexturep := None, mImagep := None\<rparr>\<rparr>"

subsection \<open>Sequences of operations\<close>

text \<open>The states after each call of a sequence of \<open>setValue\<close> calls.\<close>

fun setValue_seq :: "env \<Rightarrow> LLSD list \<Rightarrow> world \<Rightarrow> error + world list" where
  "setValue_seq e [] w = Inr []"
| "setValue_seq e (v # vs) w =
     bind_result (setValue e v w) (\<lambda>w'.
     bind_result (setValue_seq e vs w') (\<lambda>ws. Inr (w' # ws)))"

text \<open>
  A lifetime of the widget: the construction, any sequence of the three operations the
  host calls on it, and the destruction.
\<close>

datatype operation = SetValue LLSD | Draw | HandleHover int int nat

fun run_op :: "env \<Rightarrow> operation \<Rightarrow> world \<Rightarrow> error + world" where
  "run_op e (SetValue v) w = setValue e v w"
| "run_op e Draw w = draw e w"
| "run_op e (HandleHover x y msk) w = Inr (snd (handleHover e x y msk w))"

fun run_ops :: "env \<Rightarrow> operation list \<Rightarrow> world \<Rightarrow> error + world" where
  "run_ops e [] w = Inr w"
| "run_ops e (x # xs) w = bind_result (run_op e x w) (run_ops e xs)"

definition lifetime ::
  "env \<Rightarrow> Params \<Rightarrow> LLUICtrl \<Rightarrow> (tex_handle \<Rightarrow> LLViewerFetchedTexture) \<Rightarrow> call list \<Rightarrow>
   operation list \<Rightarrow> error + world" where
  "lifetime e p base ts cs xs =
     bind_result (LLThumbnailCtrl_ctor e p base ts cs) (\<lambda>w.
     bind_result (run_ops e xs w) (\<lambda>w'. Inr (LLThumbnailCtrl_dtor w')))"

subsection \<open>Vocabulary of the statements\<close>

text \<open>The calls a step added to the log, and the kinds of call the claims name.\<close>

definition issued :: "world \<Rightarrow> world \<Rightarrow> call list" where
  "issued w w' = drop (length (calls w)) (calls w')"

fun is_renderUTF8 :: "call \<Rightarrow> bool" where
  "is_renderUTF8 (renderUTF8 t off x y c h v s) = True"
| "is_renderUTF8 _ = False"

fun is_checkerboard :: "call \<Rightarrow> bool" where
  "is_checkerboard (gl_rect_2d_checkerboard r a) = True"
| "is_checkerboard _ = False"

fun is_image_blit :: "call \<Rightarrow> bool" where
  "is_image_blit (gl_draw_scaled_image x y wd ht t c) = True"
| "is_image_blit (LLUIImage_draw i r c) = True"
| "is_image_blit _ = False"

definition at_most_one_handle :: "LLThumbnailCtrl \<Rightarrow> bool" where
  "at_most_one_handle c \<longleftrightarrow> mTexturep c = None \<or> mImagep c = None"

text \<open>
  The pieces of one \<open>draw\<close>: the outline of the border step, the state that step
  leaves, the blit of the fetched texture, the loading text, and the condition under
  which the source renders it.
\<close>

definition border_calls :: "LLThumbnailCtrl \<Rightarrow> call list" where
  "border_calls c =
     (if mBorderVisible c then [gl_rect_2d (getLocalRect c) (mBorderColor c) False] else [])"

definition after_border :: "world \<Rightarrow> world" where
  "after_border w =
     (if mBorderVisible (ctrl w)
      then issue [gl_rect_2d (getLocalRect (ctrl w)) (mBorderColor (ctrl w)) False]
             (w\<lparr>ctrl := (ctrl w)\<lparr>mBorder :=
                 setKeyboardFocusHighlight (hasFocus (ctrl w)) (mBorder (ctrl w))\<rparr>\<rparr>)
      else w)"

definition blit :: "LLThumbnailCtrl \<Rightarrow> call" where
  "blit c =
     gl_draw_scaled_image (mLeft (working_rect c)) (mBottom (working_rect c))
       (getWidth (working_rect c)) (getHeight (working_rect c)) (mTexturep c)
       (ModAlpha UI_VERTEX_COLOR (draw_alpha c))"

definition loading_text :: "env \<Rightarrow> LLThumbnailCtrl \<Rightarrow> call" where
  "loading_text e c =
     renderUTF8 (mLoadingPlaceholderString c) 0 (llfloor e (mLeft (working_rect c) + 3))
       (llfloor e ((mTop (working_rect c) - 25) mod 2 ^ 32))
       LLColor4_white LEFT BASELINE DROP_SHADOW"

definition overlay_due :: "env \<Rightarrow> world \<Rightarrow> bool" where
  "overlay_due e w \<longleftrightarrow>
     (case mTexturep (ctrl w) of
        None \<Rightarrow> False
      | Some h \<Rightarrow>
          mShowLoadingPlaceholder (ctrl w) \<and> \<not> isFullyLoaded (textures w h) \<and>
          (getDiscardLevel (textures w h) > 1 \<or> gAgent_isGodlike e))"

subsection \<open>A sample environment\<close>

text \<open>
  Modelled from the spec: \<open>LLUUID::validate\<close> and the constructor of \<open>LLUUID\<close> from a
  string (lluuid.cpp is not under src/), for the sample environment only. The valid
  syntax is the one of the spec's example: 8-4-4-4-12 hexadecimal digits, read as a
  128-bit number.
\<close>

definition hex_value :: "char \<Rightarrow> LLUUID option" where
  "hex_value c =
     (let n = (of_char c :: nat)
      in if 48 \<le> n \<and> n \<le> 57 then Some (of_nat (n - 48))
         else if 97 \<le> n \<and> n \<le> 102 then Some (of_nat (n - 87))
         else if 65 \<le> n \<and> n \<le> 70 then Some (of_nat (n - 55))
         else None)"

fun canonical_from :: "nat \<Rightarrow> string \<Rightarrow> bool" where
  "canonical_from i [] = (i = 36)"
| "canonical_from i (c # cs) =
     ((if i = 8 \<or> i = 13 \<or> i = 18 \<or> i = 23 then c = CHR ''-'' else hex_value c \<noteq> None)
      \<and> canonical_from (Suc i) cs)"

definition sample_validate :: "string \<Rightarrow> bool" where
  "sample_validate s = canonical_from 0 s"

definition sample_of_string :: "string \<Rightarrow> LLUUID" where
  "sample_of_string s =
     foldl (\<lambda>acc c. case hex_value c of None \<Rightarrow> acc | Some d \<Rightarrow> acc * 16 + d) 0 s"

text \<open>
  The conversion of the sample environment: the integer, of magnitude below \<open>2 ^ 32\<close>
  as every S32 and U32 is, is rounded to the nearest F32 (24 significant bits, ties to
  even), and a result outside the S32 range becomes \<open>- 2 ^ 31\<close>, as the conversion
  instruction of x86 has it.
\<close>

definition F32_round :: "int \<Rightarrow> int" where
  "F32_round m =
     (let s = length (filter (\<lambda>k. 2 ^ (24 + k) \<le> m) [0, 1, 2, 3, 4, 5, 6, 7]);
          q = m div 2 ^ s; r = m mod 2 ^ s
      in if s = 0 then m
         else (if 2 ^ s < 2 * r \<or> (2 * r = 2 ^ s \<and> odd q) then q + 1 else q) * 2 ^ s)"

definition sample_llfloor :: "int \<Rightarrow> int" where
  "sample_llfloor n =
     (let f = (if n < 0 then - F32_round (- n) else F32_round n)
      in if - (2 ^ 31) \<le> f \<and> f < 2 ^ 31 then f else - (2 ^ 31))"

text \<open>
  The sample texture manager hands out the handle 1 for every identifier and stamps the
  identifier on the texture; the registry knows one UI image, backed by the fetched
  texture 7.
\<close>

definition sample_texture :: LLViewerFetchedTexture where
  "sample_texture =
     \<lparr>getID = 0, tex_getWidth = 256, tex_getHeight = 128, getComponents = 4,
      isFullyLoaded = False, getDiscardLevel = 3, mBoostLevel = BOOST_NONE,
      mForceToSaveRawImage = False, mDesiredSavedRawDiscardLevel = - 1,
      mKnownDrawWidth = 0, mKnownDrawHeight = 0\<rparr>"

definition sample_image :: LLUIImage where
  "sample_image = \<lparr>getName = ''icon_foo'', getImage = Some (FetchedTexture 7)\<rparr>"

definition sample_env :: env where
  "sample_env =
     \<lparr>LLUUID_validate = sample_validate,
      LLUUID_of_string = sample_of_string,
      getFetchedTexture = (\<lambda>u ft mip boost tt ts. (1, ts(1 := (ts 1)\<lparr>getID := u\<rparr>))),
      getUIImage = (\<lambda>n boost. if n = ''icon_foo'' then Some sample_image else None),
      LLTrans_getString = (\<lambda>k. ''Loading...''),
      gAgent_isGodlike = False,
      LLUICtrl_handleHover = (\<lambda>x y msk. False),
      llfloor = sample_llfloor\<rparr>"

definition sample_base :: LLUICtrl where
  "sample_base =
     \<lparr>getValue = SDUndefined,
      getLocalRect = \<lparr>mLeft = 0, mTop = 100, mRight = 100, mBottom = 0\<rparr>,
      getEnabled = True, hasFocus = False, getTransparencyType = TT_ACTIVE,
      getCurrentTransparency = 1\<rparr>"

definition sample_params :: Params where
  "sample_params =
     set_attribute ''interactable'' (AttrBool True)
       (set_attribute ''show_visible'' (AttrBool True)
          (Params_Params \<lparr>vb_name = [], vb_rect = \<lparr>mLeft = 0, mTop = 0, mRight = 0, mBottom = 0\<rparr>\<rparr>
             LLColor4_black))"

text \<open>The widget the constructor builds from the sample parameters, and the same widget
  holding the fetched texture 1, holding the sample UI image, holding a texture at discard
  level 1, holding a texture of 3 components, 10 pixels wide and high with no border and
  holding a texture, and not interactable.\<close>

definition sample_world :: world where
  "sample_world =
     \<lparr>ctrl =
        \<lparr>getValue = SDUndefined,
         getLocalRect = \<lparr>mLeft = 0, mTop = 100, mRight = 100, mBottom = 0\<rparr>,
         getEnabled = True, hasFocus = False, getTransparencyType = TT_ACTIVE,
         getCurrentTransparency = 1,
         mBorderColor = LLColor4_black, mBorderVisible = True, mInteractable = True,
         mShowLoadingPlaceholder = True, mPriority = BOOST_PREVIEW,
         mLoadingPlaceholderString = ''Loading...'',
         mBorder = \<lparr>border_name = ''border'',
                    border_rect = \<lparr>mLeft = 0, mTop = 100, mRight = 100, mBottom = 0\<rparr>,
                    mHasKeyboardFocus = False\<rparr>,
         mImageAssetID = 0, mTexturep = None, mImagep = None\<rparr>,
      textures = (\<lambda>h. sample_texture),
      calls = []\<rparr>"

definition sample_world_texture :: world where
  "sample_world_texture = sample_world\<lparr>ctrl := (ctrl sample_world)\<lparr>mTexturep := Some 1\<rparr>\<rparr>"

definition sample_world_image :: world where
  "sample_world_image =
     sample_world\<lparr>ctrl := (ctrl sample_world)\<lparr>mImagep := Some sample_image\<rparr>\<rparr>"

definition sample_world_discard1 :: world where
  "sample_world_discard1 =
     sample_world_texture\<lparr>textures := (\<lambda>h. sample_texture\<lparr>getDiscardLevel := 1\<rparr>)\<rparr>"

definition sample_world_rgb :: world where
  "sample_world_rgb =
     sample_world_texture\<lparr>textures := (\<lambda>h. sample_texture\<lparr>getComponents := 3\<rparr>)\<rparr>"

definition sample_world_small :: world where
  "sample_world_small =
     sample_world\<lparr>ctrl := (ctrl sample_world)
       \<lparr>getLocalRect := \<lparr>mLeft = 0, mTop = 10, mRight = 10, mBottom = 0\<rparr>,
        mBorderVisible := False, mTexturep := Some 1\<rparr>\<rparr>"

definition sample_world_plain :: world where
  "sample_world_plain = sample_world\<lparr>ctrl := (ctrl sample_world)\<lparr>mInteractable := False\<rparr>\<rparr>"

text \<open>A sequence of values for \<open>setValue\<close>: an identifier, the name of the sample UI
  image, the undefined value, and the string form of an identifier.\<close>

definition sample_values :: "LLSD list" where
  "sample_values =
     [SDUUID 0x11111111111111111111111111111111, SDString ''icon_foo'', SDUndefined,
      SDString ''550e8400-e29b-41d4-a716-446655440000'']"

section \<open>Properties\<close>

subsection \<open>What each operation computes\<close>

lemma bind_result_Inr [simp]: "bind_result (Inr x) f = f x"
  by (simp add: bind_result_def)

lemma bind_result_Inl [simp]: "bind_result (Inl err) f = Inl err"
  by (simp add: bind_result_def)

lemma mTexturep_call_Some:
  "mTexturep (ctrl w) = Some h \<Longrightarrow>
   mTexturep_call m w = Inr (w\<lparr>textures := (textures w)(h := m (textures w h))\<rparr>)"
  by (simp add: mTexturep_call_def)

lemma mTexturep_get_Some:
  "mTexturep (ctrl w) = Some h \<Longrightarrow> mTexturep_get g w = Inr (g (textures w h))"
  by (simp add: mTexturep_get_def)

lemma setValue_SDUUID_null:
  "setValue e (SDUUID LLUUID_null) w =
     Inr (w\<lparr>ctrl := (ctrl w)\<lparr>getValue := SDUUID LLUUID_null, mImageAssetID := LLUUID_null,
                             mTexturep := None, mImagep := None\<rparr>\<rparr>)"
  by (simp add: setValue_def LLUICtrl_setValue_def notNull_def Let_def)

lemma setValue_SDUUID_notNull:
  assumes "u \<noteq> LLUUID_null"
    and "getFetchedTexture e u FTT_DEFAULT MIPMAP_YES BOOST_NONE LOD_TEXTURE (textures w) = (h, ts)"
  shows "setValue e (SDUUID u) w =
     Inr (w\<lparr>ctrl := (ctrl w)\<lparr>getValue := SDUUID u, mImageAssetID := u,
                             mTexturep := Some h, mImagep := None\<rparr>,
            textures := ts(h := setKnownDrawSize (tex_getWidth (ts h)) (tex_getHeight (ts h))
                                  (forceToSaveRawImage 0 (setBoostLevel (mPriority (ctrl w)) (ts h))))\<rparr>)"
  using assms
  by (simp add: setValue_def LLUICtrl_setValue_def notNull_def Let_def mTexturep_call_def
      mTexturep_get_def setKnownDrawSize_def forceToSaveRawImage_def setBoostLevel_def)

lemma setValue_SDString_valid:
  "LLUUID_validate e s \<Longrightarrow>
   setValue e (SDString s) w = setValue e (SDUUID (LLUUID_of_string e s)) w"
  by (simp add: setValue_def)

lemma setValue_SDString_name:
  "\<not> LLUUID_validate e s \<Longrightarrow>
   setValue e (SDString s) w =
     Inr (w\<lparr>ctrl := (ctrl w)\<lparr>getValue := SDString s,
            mImageAssetID :=
              (case getUIImage e s BOOST_UI of
                 None \<Rightarrow> LLUUID_null
               | Some img \<Rightarrow>
                   (case dynamic_cast_fetched (getImage img) of
                      None \<Rightarrow> LLUUID_null
                    | Some texture \<Rightarrow> getID (textures w texture))),
            mTexturep := None, mImagep := getUIImage e s BOOST_UI\<rparr>\<rparr>)"
  by (simp add: setValue_def LLUICtrl_setValue_def Let_def split: option.splits)

lemma setValue_other:
  "\<not> isString v \<Longrightarrow> \<not> isUUID v \<Longrightarrow>
   setValue e v w =
     Inr (w\<lparr>ctrl := (ctrl w)\<lparr>getValue := v, mImageAssetID := LLUUID_null,
                             mTexturep := None, mImagep := None\<rparr>\<rparr>)"
  by (simp add: setValue_def LLUICtrl_setValue_def Let_def)

lemma draw_fallback:
  assumes "mTexturep (ctrl w) = None" and "mImagep (ctrl w) = None"
  shows "draw e w =
     Inr (issue [gl_rect_2d (working_rect (ctrl w)) (ModAlpha LLColor4_grey (draw_alpha (ctrl w))) True,
                 gl_draw_x (working_rect (ctrl w)) LLColor4_black,
                 LLUICtrl_draw] (after_border w))"
  using assms
  by (simp add: draw_def after_border_def issue_def working_rect_def draw_alpha_def Let_def)

lemma draw_image:
  assumes "mTexturep (ctrl w) = None" and "mImagep (ctrl w) = Some img"
  shows "draw e w =
     Inr (issue [LLUIImage_draw img (getLocalRect (ctrl w)) (ModAlpha UI_VERTEX_COLOR (draw_alpha (ctrl w))),
                 LLUICtrl_draw] (after_border w))"
  using assms
  by (simp add: draw_def after_border_def issue_def working_rect_def draw_alpha_def Let_def)

lemma draw_texture:
  assumes "mTexturep (ctrl w) = Some h"
  shows "draw e w =
     Inr ((issue ((if getComponents (textures w h) = 4
                   then [gl_rect_2d_checkerboard (working_rect (ctrl w)) (draw_alpha (ctrl w))]
                   else []) @
                  [blit (ctrl w)] @
                  (if overlay_due e w then [loading_text e (ctrl w)] else []) @
                  [LLUICtrl_draw]) (after_border w))
          \<lparr>textures := (textures w)(h := setKnownDrawSize (getWidth (working_rect (ctrl w)))
                                           (getHeight (working_rect (ctrl w))) (textures w h))\<rparr>)"
  using assms
  by (simp add: draw_def after_border_def issue_def working_rect_def draw_alpha_def Let_def
      mTexturep_call_def mTexturep_get_def blit_def loading_text_def overlay_due_def
      setKnownDrawSize_def)

lemma after_border_ctrl:
  "ctrl (after_border w) =
     (if mBorderVisible (ctrl w)
      then (ctrl w)\<lparr>mBorder := setKeyboardFocusHighlight (hasFocus (ctrl w)) (mBorder (ctrl w))\<rparr>
      else ctrl w)"
  by (simp add: after_border_def issue_def)

lemma after_border_textures: "textures (after_border w) = textures w"
  by (simp add: after_border_def issue_def)

lemma after_border_calls: "calls (after_border w) = calls w @ border_calls (ctrl w)"
  by (simp add: after_border_def issue_def border_calls_def)

lemma issued_append: "calls w' = calls w @ cs \<Longrightarrow> issued w w' = cs"
  by (simp add: issued_def)

lemma setValue_total: "\<exists>w'. setValue e v w = Inr w'"
proof (cases "isUUID v")
  case True
  then obtain u where v: "v = SDUUID u" by (cases v) simp_all
  show ?thesis
  proof (cases "u = LLUUID_null")
    case True
    with v show ?thesis by (simp add: setValue_SDUUID_null)
  next
    case False
    obtain h ts where
      "getFetchedTexture e u FTT_DEFAULT MIPMAP_YES BOOST_NONE LOD_TEXTURE (textures w) = (h, ts)"
      by (cases "getFetchedTexture e u FTT_DEFAULT MIPMAP_YES BOOST_NONE LOD_TEXTURE (textures w)")
    with False v show ?thesis by (simp add: setValue_SDUUID_notNull)
  qed
next
  case notU: False
  show ?thesis
  proof (cases "isString v")
    case True
    then obtain s where v: "v = SDString s" by (cases v) simp_all
    show ?thesis
    proof (cases "LLUUID_validate e s")
      case valid: True
      show ?thesis
      proof (cases "LLUUID_of_string e s = LLUUID_null")
        case True
        with v valid show ?thesis by (simp add: setValue_SDString_valid setValue_SDUUID_null)
      next
        case False
        obtain h ts where
          "getFetchedTexture e (LLUUID_of_string e s) FTT_DEFAULT MIPMAP_YES BOOST_NONE LOD_TEXTURE
             (textures w) = (h, ts)"
          by (cases "getFetchedTexture e (LLUUID_of_string e s) FTT_DEFAULT MIPMAP_YES BOOST_NONE
                       LOD_TEXTURE (textures w)")
        with False v valid show ?thesis
          by (simp add: setValue_SDString_valid setValue_SDUUID_notNull)
      qed
    next
      case False
      with v show ?thesis by (simp add: setValue_SDString_name)
    qed
  next
    case False
    with notU show ?thesis by (simp add: setValue_other)
  qed
qed

lemma draw_total: "\<exists>w'. draw e w = Inr w'"
proof (cases "mTexturep (ctrl w)")
  case None
  then show ?thesis
    by (cases "mImagep (ctrl w)") (simp_all add: draw_fallback draw_image)
next
  case (Some h)
  then show ?thesis by (simp add: draw_texture)
qed

lemma setValue_mPriority: "setValue e v w = Inr w' \<Longrightarrow> mPriority (ctrl w') = mPriority (ctrl w)"
  by (auto simp add: setValue_def LLUICtrl_setValue_def Let_def mTexturep_call_def
      mTexturep_get_def split: if_splits prod.splits option.splits)

lemma draw_ctrl:
  "draw e w = Inr w' \<Longrightarrow> ctrl w' = ctrl (after_border w)"
proof (cases "mTexturep (ctrl w)")
  case None
  assume "draw e w = Inr w'"
  with None show ?thesis
    by (cases "mImagep (ctrl w)") (auto simp add: draw_fallback draw_image issue_def)
next
  case (Some h)
  assume "draw e w = Inr w'"
  with Some show ?thesis by (auto simp add: draw_texture issue_def)
qed

lemma ctor_mPriority:
  "LLThumbnailCtrl_ctor e p base ts cs = Inr w \<Longrightarrow> mPriority (ctrl w) = BOOST_PREVIEW"
  by (auto simp add: LLThumbnailCtrl_ctor_def Let_def split: if_splits dest: setValue_mPriority)

lemma run_op_total: "\<exists>w'. run_op e x w = Inr w'"
  by (cases x) (simp_all add: setValue_total draw_total)

lemma run_ops_total: "\<exists>w'. run_ops e xs w = Inr w'"
proof (induction xs arbitrary: w)
  case Nil
  show ?case by simp
next
  case (Cons x xs)
  obtain w1 where "run_op e x w = Inr w1" using run_op_total by blast
  with Cons.IH [of w1] show ?case by simp
qed

lemma ctor_total: "\<exists>w. LLThumbnailCtrl_ctor e p base ts cs = Inr w"
  by (simp add: LLThumbnailCtrl_ctor_def Let_def setValue_total)

lemma setValue_one_handle:
  "\<exists>w'. setValue e v w = Inr w' \<and> at_most_one_handle (ctrl w')"
  by (auto simp add: setValue_def LLUICtrl_setValue_def Let_def mTexturep_call_def
      mTexturep_get_def at_most_one_handle_def split: if_splits prod.splits option.splits)

subsection \<open>The calls one draw issues\<close>

lemma draw_issued_texture:
  assumes "mTexturep (ctrl w) = Some h"
  shows "\<exists>w'. draw e w = Inr w' \<and>
     calls w' = calls w @ issued w w' \<and>
     issued w w' =
       border_calls (ctrl w) @
       (if getComponents (textures w h) = 4
        then [gl_rect_2d_checkerboard (working_rect (ctrl w)) (draw_alpha (ctrl w))] else []) @
       [blit (ctrl w)] @
       (if overlay_due e w then [loading_text e (ctrl w)] else []) @
       [LLUICtrl_draw]"
  using assms
  by (simp add: draw_texture issue_def after_border_calls issued_def)

lemma draw_issued_image:
  assumes "mTexturep (ctrl w) = None" and "mImagep (ctrl w) = Some img"
  shows "\<exists>w'. draw e w = Inr w' \<and>
     calls w' = calls w @ issued w w' \<and>
     issued w w' =
       border_calls (ctrl w) @
       [LLUIImage_draw img (getLocalRect (ctrl w)) (ModAlpha UI_VERTEX_COLOR (draw_alpha (ctrl w))),
        LLUICtrl_draw]"
  using assms
  by (simp add: draw_image issue_def after_border_calls issued_def)

lemma draw_issued_fallback:
  assumes "mTexturep (ctrl w) = None" and "mImagep (ctrl w) = None"
  shows "\<exists>w'. draw e w = Inr w' \<and>
     calls w' = calls w @ issued w w' \<and>
     issued w w' =
       border_calls (ctrl w) @
       [gl_rect_2d (working_rect (ctrl w)) (ModAlpha LLColor4_grey (draw_alpha (ctrl w))) True,
        gl_draw_x (working_rect (ctrl w)) LLColor4_black,
        LLUICtrl_draw]"
  using assms
  by (simp add: draw_fallback issue_def after_border_calls issued_def)

lemma border_calls_kinds:
  "\<not> list_ex is_renderUTF8 (border_calls c)"
  "\<not> list_ex is_checkerboard (border_calls c)"
  "\<not> list_ex is_image_blit (border_calls c)"
  by (simp_all add: border_calls_def)

lemma overlay_due_iff:
  "overlay_due e w \<longleftrightarrow>
     (\<exists>h. mTexturep (ctrl w) = Some h \<and> mShowLoadingPlaceholder (ctrl w) \<and>
          \<not> isFullyLoaded (textures w h) \<and>
          (1 < getDiscardLevel (textures w h) \<or> gAgent_isGodlike e))"
  by (simp add: overlay_due_def split: option.splits)

text \<open>The draw-size hint is all that \<open>draw\<close> changes in a texture: what the texture
  answers to the queries of \<open>draw\<close> is the same before and after.\<close>

lemma draw_texture_answers:
  assumes "draw e w = Inr w'"
  shows "isFullyLoaded (textures w' h) = isFullyLoaded (textures w h) \<and>
         getDiscardLevel (textures w' h) = getDiscardLevel (textures w h) \<and>
         getComponents (textures w' h) = getComponents (textures w h)"
proof (cases "mTexturep (ctrl w)")
  case None
  with assms show ?thesis
    by (cases "mImagep (ctrl w)")
      (auto simp add: draw_fallback draw_image issue_def after_border_textures)
next
  case (Some h')
  with assms show ?thesis
    by (cases "h = h'")
      (auto simp add: draw_texture issue_def after_border_textures setKnownDrawSize_def)
qed

subsection \<open>The sample environment, evaluated\<close>

lemmas sample_defs =
  sample_env_def sample_world_def sample_world_texture_def sample_world_image_def
  sample_texture_def sample_image_def sample_base_def sample_params_def

lemma sample_validate_example: "sample_validate ''550e8400-e29b-41d4-a716-446655440000''"
  by (simp add: sample_validate_def hex_value_def)

lemma sample_of_string_example:
  "sample_of_string ''550e8400-e29b-41d4-a716-446655440000'' = 0x550e8400e29b41d4a716446655440000"
  by (simp add: sample_of_string_def hex_value_def)

lemma sample_validate_nil: "sample_validate ''00000000-0000-0000-0000-000000000000''"
  by (simp add: sample_validate_def hex_value_def)

lemma sample_of_string_nil:
  "sample_of_string ''00000000-0000-0000-0000-000000000000'' = LLUUID_null"
  by (simp add: sample_of_string_def hex_value_def LLUUID_null_def)

lemma sample_validate_icon: "\<not> sample_validate ''icon_foo''"
  by (simp add: sample_validate_def hex_value_def)

lemma sample_llfloor_small:
  "sample_llfloor 3 = 3" "sample_llfloor 4 = 4" "sample_llfloor 74 = 74"
  by (simp_all add: sample_llfloor_def F32_round_def)

lemma sample_llfloor_wrapped: "sample_llfloor ((10 - 25) mod 2 ^ 32) = - 2147483648"
  by (simp add: sample_llfloor_def F32_round_def)

lemma sample_ctor:
  "LLThumbnailCtrl_ctor sample_env sample_params sample_base (\<lambda>h. sample_texture) [] =
     Inr sample_world"
  by (simp add: LLThumbnailCtrl_ctor_def sample_defs Params_Params_def Optional_def
      set_attribute_def provide_def create_LLViewBorder_def Let_def LLUUID_null_def)

lemma sample_values_handles:
  "map_sum id (map (\<lambda>w'. (mTexturep (ctrl w'), mImagep (ctrl w'), mImageAssetID (ctrl w'))))
     (setValue_seq sample_env sample_values sample_world_image) =
   Inr [(Some 1, None, 0x11111111111111111111111111111111),
        (None, Some sample_image, 0),
        (None, None, 0),
        (Some 1, None, 0x550e8400e29b41d4a716446655440000)]"
  by (simp add: sample_values_def setValue_def LLUICtrl_setValue_def Let_def mTexturep_call_def
      mTexturep_get_def sample_defs sample_validate_def sample_of_string_def hex_value_def
      notNull_def LLUUID_null_def setKnownDrawSize_def forceToSaveRawImage_def setBoostLevel_def)

section \<open>The claims\<close>

text \<open>
  C1. A call of \<open>setValue\<close> with a non-null identifier, on a widget whose priority is the
  \<open>BOOST_PREVIEW\<close> the constructor sets (\<open>ctor_mPriority\<close>; no operation changes it),
  succeeds and leaves the identifier as the image asset identifier and \<open>mTexturep\<close>
  pointing to the texture the manager returned for it, with boost level
  \<open>BOOST_PREVIEW\<close>, the raw image forced to be saved at discard level 0, and the known
  draw size equal to the texture's width and height.
\<close>

theorem setValue_identifier:
  assumes "u \<noteq> LLUUID_null" and "mPriority (ctrl w) = BOOST_PREVIEW"
  shows "\<exists>w' h. setValue e (SDUUID u) w = Inr w' \<and>
           mImageAssetID (ctrl w') = u \<and>
           mTexturep (ctrl w') = Some h \<and>
           h = fst (getFetchedTexture e u FTT_DEFAULT MIPMAP_YES BOOST_NONE LOD_TEXTURE (textures w)) \<and>
           mBoostLevel (textures w' h) = BOOST_PREVIEW \<and>
           mForceToSaveRawImage (textures w' h) \<and>
           mDesiredSavedRawDiscardLevel (textures w' h) = 0 \<and>
           mKnownDrawWidth (textures w' h) = tex_getWidth (textures w' h) \<and>
           mKnownDrawHeight (textures w' h) = tex_getHeight (textures w' h)"
proof -
  obtain h ts where
    g: "getFetchedTexture e u FTT_DEFAULT MIPMAP_YES BOOST_NONE LOD_TEXTURE (textures w) = (h, ts)"
    by (cases "getFetchedTexture e u FTT_DEFAULT MIPMAP_YES BOOST_NONE LOD_TEXTURE (textures w)")
  show ?thesis
    using assms g
    by (simp add: setValue_SDUUID_notNull setKnownDrawSize_def forceToSaveRawImage_def
        setBoostLevel_def)
qed

theorem setValue_identifier_witness:
  "(0x11111111111111111111111111111111 :: LLUUID) \<noteq> LLUUID_null \<and>
   mPriority (ctrl sample_world) = BOOST_PREVIEW \<and>
   (\<exists>w' h. setValue sample_env (SDUUID 0x11111111111111111111111111111111) sample_world = Inr w' \<and>
      mImageAssetID (ctrl w') = 0x11111111111111111111111111111111 \<and>
      mTexturep (ctrl w') = Some h \<and>
      h = fst (getFetchedTexture sample_env 0x11111111111111111111111111111111 FTT_DEFAULT
                 MIPMAP_YES BOOST_NONE LOD_TEXTURE (textures sample_world)) \<and>
      mBoostLevel (textures w' h) = BOOST_PREVIEW \<and>
      mForceToSaveRawImage (textures w' h) \<and>
      mDesiredSavedRawDiscardLevel (textures w' h) = 0 \<and>
      mKnownDrawWidth (textures w' h) = tex_getWidth (textures w' h) \<and>
      mKnownDrawHeight (textures w' h) = tex_getHeight (textures w' h))"
proof -
  have a: "(0x11111111111111111111111111111111 :: LLUUID) \<noteq> LLUUID_null"
    by (simp add: LLUUID_null_def)
  have b: "mPriority (ctrl sample_world) = BOOST_PREVIEW"
    by (simp add: sample_world_def)
  show ?thesis
    using a b setValue_identifier [OF a b, of sample_env] by blast
qed

text \<open>
  C2. As stated the claim fails: the string form of the null identifier validates, and
  after \<open>setValue\<close> with it no fetched-texture handle results, because the source
  fetches a texture only when the identifier is not null.
\<close>

theorem setValue_nil_string_counterexample:
  "LLUUID_validate sample_env ''00000000-0000-0000-0000-000000000000'' \<and>
   map_sum id (mTexturep \<circ> ctrl)
     (setValue sample_env (SDString ''00000000-0000-0000-0000-000000000000'') sample_world) =
   Inr None"
proof -
  have v: "LLUUID_validate sample_env ''00000000-0000-0000-0000-000000000000''"
    by (simp add: sample_env_def sample_validate_nil)
  have n: "LLUUID_of_string sample_env ''00000000-0000-0000-0000-000000000000'' = LLUUID_null"
    by (simp add: sample_env_def sample_of_string_nil)
  show ?thesis
    using v by (simp add: setValue_SDString_valid n setValue_SDUUID_null)
qed

text \<open>
  C2, amended. For every string that validates as an identifier, \<open>setValue\<close> with the
  string returns what \<open>setValue\<close> with the parsed identifier returns; the value stored
  in the base class is the identifier, never the string; the ui-image handle is null; and
  a fetched-texture handle results exactly when the parsed identifier is not null.
\<close>

theorem setValue_identifier_string:
  assumes "LLUUID_validate e s"
  shows "setValue e (SDString s) w = setValue e (SDUUID (LLUUID_of_string e s)) w \<and>
         (\<exists>w'. setValue e (SDString s) w = Inr w' \<and>
            getValue (ctrl w') = SDUUID (LLUUID_of_string e s) \<and>
            mImagep (ctrl w') = None \<and>
            (mTexturep (ctrl w') \<noteq> None \<longleftrightarrow> LLUUID_of_string e s \<noteq> LLUUID_null))"
proof (cases "LLUUID_of_string e s = LLUUID_null")
  case True
  with assms show ?thesis
    by (simp add: setValue_SDString_valid setValue_SDUUID_null)
next
  case False
  obtain h ts where
    "getFetchedTexture e (LLUUID_of_string e s) FTT_DEFAULT MIPMAP_YES BOOST_NONE LOD_TEXTURE
       (textures w) = (h, ts)"
    by (cases "getFetchedTexture e (LLUUID_of_string e s) FTT_DEFAULT MIPMAP_YES BOOST_NONE
                 LOD_TEXTURE (textures w)")
  with False assms show ?thesis
    by (simp add: setValue_SDString_valid setValue_SDUUID_notNull)
qed

theorem setValue_identifier_string_witness:
  "LLUUID_validate sample_env ''550e8400-e29b-41d4-a716-446655440000'' \<and>
   LLUUID_of_string sample_env ''550e8400-e29b-41d4-a716-446655440000'' =
     0x550e8400e29b41d4a716446655440000 \<and>
   setValue sample_env (SDString ''550e8400-e29b-41d4-a716-446655440000'') sample_world =
     setValue sample_env (SDUUID 0x550e8400e29b41d4a716446655440000) sample_world \<and>
   (\<exists>w'. setValue sample_env (SDString ''550e8400-e29b-41d4-a716-446655440000'') sample_world =
           Inr w' \<and>
      getValue (ctrl w') = SDUUID 0x550e8400e29b41d4a716446655440000 \<and>
      mImagep (ctrl w') = None \<and>
      mTexturep (ctrl w') \<noteq> None)"
proof -
  have v: "LLUUID_validate sample_env ''550e8400-e29b-41d4-a716-446655440000''"
    by (simp add: sample_env_def sample_validate_example)
  have p: "LLUUID_of_string sample_env ''550e8400-e29b-41d4-a716-446655440000'' =
             0x550e8400e29b41d4a716446655440000"
    by (simp add: sample_env_def sample_of_string_example)
  have n: "(0x550e8400e29b41d4a716446655440000 :: LLUUID) \<noteq> LLUUID_null"
    by (simp add: LLUUID_null_def)
  note inst = setValue_identifier_string [OF v, of sample_world, unfolded p]
  show ?thesis
    using v p n inst by blast
qed

text \<open>
  C3. Every sequence of \<open>setValue\<close> calls, with any values and from any state, runs to
  its end, and in the state after each call at most one of \<open>mTexturep\<close> and \<open>mImagep\<close>
  is non-null.
\<close>

theorem setValue_seq_one_handle:
  "\<exists>ws. setValue_seq e vs w = Inr ws \<and> length ws = length vs \<and>
         list_all (\<lambda>w'. at_most_one_handle (ctrl w')) ws"
proof (induction vs arbitrary: w)
  case Nil
  show ?case by simp
next
  case (Cons v vs)
  obtain w1 where w1: "setValue e v w = Inr w1" "at_most_one_handle (ctrl w1)"
    using setValue_one_handle by blast
  obtain ws where
    ws: "setValue_seq e vs w1 = Inr ws" "length ws = length vs"
      "list_all (\<lambda>w'. at_most_one_handle (ctrl w')) ws"
    using Cons.IH [of w1] by blast
  from w1 ws show ?case by simp
qed

theorem setValue_seq_one_handle_witness:
  "\<exists>ws. setValue_seq sample_env sample_values sample_world_image = Inr ws \<and>
        length ws = length sample_values \<and>
        list_all (\<lambda>w'. at_most_one_handle (ctrl w')) ws"
  by (rule setValue_seq_one_handle)

text \<open>
  C4. Every \<open>draw\<close> succeeds, and it renders the loading text if and only if the
  fetched-texture handle is present, \<open>mShowLoadingPlaceholder\<close> is true, the texture is
  not fully loaded, and its discard level is greater than 1 or the agent is godlike. The
  text it renders is then the loading label at the position the source computes. (The
  texture answers the two queries after the draw-size hint is set; by
  \<open>draw_texture_answers\<close> the answers are those of the state before the draw.)
\<close>

theorem draw_loading_overlay:
  "\<exists>w'. draw e w = Inr w' \<and>
     calls w' = calls w @ issued w w' \<and>
     (list_ex is_renderUTF8 (issued w w') \<longleftrightarrow>
        (\<exists>h. mTexturep (ctrl w) = Some h \<and> mShowLoadingPlaceholder (ctrl w) \<and>
             \<not> isFullyLoaded (textures w h) \<and>
             (1 < getDiscardLevel (textures w h) \<or> gAgent_isGodlike e))) \<and>
     (list_ex is_renderUTF8 (issued w w') \<longleftrightarrow> loading_text e (ctrl w) \<in> set (issued w w'))"
proof (cases "mTexturep (ctrl w)")
  case None
  show ?thesis
  proof (cases "mImagep (ctrl w)")
    case no_image: None
    from draw_issued_fallback [OF None no_image, of e] None show ?thesis
      by (auto simp add: border_calls_kinds border_calls_def loading_text_def)
  next
    case (Some img)
    from draw_issued_image [OF None Some, of e] None show ?thesis
      by (auto simp add: border_calls_kinds border_calls_def loading_text_def)
  qed
next
  case (Some h)
  from draw_issued_texture [OF Some, of e] Some show ?thesis
    by (auto simp add: border_calls_kinds border_calls_def blit_def loading_text_def
        overlay_due_iff)
qed

theorem draw_loading_overlay_witness:
  "(\<exists>w'. draw sample_env sample_world_texture = Inr w' \<and>
      calls w' = calls sample_world_texture @ issued sample_world_texture w' \<and>
      list_ex is_renderUTF8 (issued sample_world_texture w') \<and>
      loading_text sample_env (ctrl sample_world_texture) \<in> set (issued sample_world_texture w')) \<and>
   mTexturep (ctrl sample_world_texture) = Some 1 \<and>
   mShowLoadingPlaceholder (ctrl sample_world_texture) \<and>
   \<not> isFullyLoaded (textures sample_world_texture 1) \<and>
   getDiscardLevel (textures sample_world_texture 1) = 3 \<and>
   (\<exists>w'. draw sample_env sample_world_discard1 = Inr w' \<and>
      \<not> list_ex is_renderUTF8 (issued sample_world_discard1 w')) \<and>
   mTexturep (ctrl sample_world_discard1) = Some 1 \<and>
   mShowLoadingPlaceholder (ctrl sample_world_discard1) \<and>
   \<not> isFullyLoaded (textures sample_world_discard1 1) \<and>
   getDiscardLevel (textures sample_world_discard1 1) = 1 \<and>
   \<not> gAgent_isGodlike sample_env \<and>
   (\<exists>w'. draw sample_env sample_world_small = Inr w' \<and>
      renderUTF8 ''Loading...'' 0 3 (- 2147483648) LLColor4_white LEFT BASELINE DROP_SHADOW
        \<in> set (issued sample_world_small w'))"
proof -
  have s: "mTexturep (ctrl sample_world_small) = Some 1"
      "mShowLoadingPlaceholder (ctrl sample_world_small)"
      "\<not> isFullyLoaded (textures sample_world_small 1)"
      "getDiscardLevel (textures sample_world_small 1) = 3"
    by (simp_all add: sample_world_small_def sample_defs)
  have r: "working_rect (ctrl sample_world_small) =
             \<lparr>mLeft = 0, mTop = 10, mRight = 10, mBottom = 0\<rparr>"
    by (simp add: working_rect_def sample_world_small_def sample_defs)
  have l: "loading_text sample_env (ctrl sample_world_small) =
             renderUTF8 ''Loading...'' 0 3 (- 2147483648) LLColor4_white LEFT BASELINE
               DROP_SHADOW"
    using sample_llfloor_wrapped
    by (simp add: loading_text_def r)
      (simp add: sample_world_small_def sample_defs sample_llfloor_small)
  from s draw_loading_overlay [of sample_env sample_world_small]
  have m: "\<exists>w'. draw sample_env sample_world_small = Inr w' \<and>
      renderUTF8 ''Loading...'' 0 3 (- 2147483648) LLColor4_white LEFT BASELINE DROP_SHADOW
        \<in> set (issued sample_world_small w')"
    unfolding l by auto
  have c: "mTexturep (ctrl sample_world_texture) = Some 1"
      "mShowLoadingPlaceholder (ctrl sample_world_texture)"
      "\<not> isFullyLoaded (textures sample_world_texture 1)"
      "getDiscardLevel (textures sample_world_texture 1) = 3"
    by (simp_all add: sample_defs)
  have d: "mTexturep (ctrl sample_world_discard1) = Some 1"
      "mShowLoadingPlaceholder (ctrl sample_world_discard1)"
      "\<not> isFullyLoaded (textures sample_world_discard1 1)"
      "getDiscardLevel (textures sample_world_discard1 1) = 1"
      "\<not> gAgent_isGodlike sample_env"
    by (simp_all add: sample_world_discard1_def sample_defs)
  from c draw_loading_overlay [of sample_env sample_world_texture]
  have p: "\<exists>w'. draw sample_env sample_world_texture = Inr w' \<and>
      calls w' = calls sample_world_texture @ issued sample_world_texture w' \<and>
      list_ex is_renderUTF8 (issued sample_world_texture w') \<and>
      loading_text sample_env (ctrl sample_world_texture) \<in> set (issued sample_world_texture w')"
    by auto
  from d draw_loading_overlay [of sample_env sample_world_discard1]
  have n: "\<exists>w'. draw sample_env sample_world_discard1 = Inr w' \<and>
      \<not> list_ex is_renderUTF8 (issued sample_world_discard1 w')"
    by auto
  from c d p n m show ?thesis by simp
qed

text \<open>
  C5. With a fetched-texture handle present, \<open>draw\<close> issues the outline of the border
  step (when the border is visible), then the checkerboard on the working rectangle if
  and only if the texture has 4 components, then in either case the blit of the texture
  scaled to the working rectangle, then the loading text when it is due, then the base
  class's draw. With 3 components there is no checkerboard.
\<close>

theorem draw_checkerboard:
  assumes "mTexturep (ctrl w) = Some h"
  shows "\<exists>w'. draw e w = Inr w' \<and>
     issued w w' =
       border_calls (ctrl w) @
       (if getComponents (textures w h) = 4
        then [gl_rect_2d_checkerboard (working_rect (ctrl w)) (draw_alpha (ctrl w))] else []) @
       [blit (ctrl w)] @
       (if overlay_due e w then [loading_text e (ctrl w)] else []) @
       [LLUICtrl_draw] \<and>
     (list_ex is_checkerboard (issued w w') \<longleftrightarrow> getComponents (textures w h) = 4)"
  using draw_issued_texture [OF assms, of e]
  by (auto simp add: border_calls_kinds border_calls_def blit_def loading_text_def)

theorem draw_checkerboard_witness:
  "mTexturep (ctrl sample_world_texture) = Some 1 \<and>
   getComponents (textures sample_world_texture 1) = 4 \<and>
   (\<exists>w'. draw sample_env sample_world_texture = Inr w' \<and>
      issued sample_world_texture w' =
        [gl_rect_2d \<lparr>mLeft = 0, mTop = 100, mRight = 100, mBottom = 0\<rparr> LLColor4_black False,
         gl_rect_2d_checkerboard \<lparr>mLeft = 1, mTop = 99, mRight = 99, mBottom = 1\<rparr> 1,
         gl_draw_scaled_image 1 1 98 98 (Some 1) (ModAlpha UI_VERTEX_COLOR 1),
         renderUTF8 ''Loading...'' 0 4 74 LLColor4_white LEFT BASELINE DROP_SHADOW,
         LLUICtrl_draw] \<and>
      list_ex is_checkerboard (issued sample_world_texture w')) \<and>
   mTexturep (ctrl sample_world_rgb) = Some 1 \<and>
   getComponents (textures sample_world_rgb 1) = 3 \<and>
   (\<exists>w'. draw sample_env sample_world_rgb = Inr w' \<and>
      issued sample_world_rgb w' =
        [gl_rect_2d \<lparr>mLeft = 0, mTop = 100, mRight = 100, mBottom = 0\<rparr> LLColor4_black False,
         gl_draw_scaled_image 1 1 98 98 (Some 1) (ModAlpha UI_VERTEX_COLOR 1),
         renderUTF8 ''Loading...'' 0 4 74 LLColor4_white LEFT BASELINE DROP_SHADOW,
         LLUICtrl_draw] \<and>
      \<not> list_ex is_checkerboard (issued sample_world_rgb w'))"
proof -
  have t: "mTexturep (ctrl sample_world_texture) = Some 1"
    by (simp add: sample_defs)
  have c: "getComponents (textures sample_world_texture 1) = 4"
    by (simp add: sample_defs)
  have o: "overlay_due sample_env sample_world_texture"
    by (simp add: overlay_due_def sample_defs)
  have t': "mTexturep (ctrl sample_world_rgb) = Some 1"
    by (simp add: sample_world_rgb_def sample_defs)
  have c': "getComponents (textures sample_world_rgb 1) = 3"
    by (simp add: sample_world_rgb_def sample_defs)
  have o': "overlay_due sample_env sample_world_rgb"
    by (simp add: overlay_due_def sample_world_rgb_def sample_defs)
  have s: "ctrl sample_world_rgb = ctrl sample_world_texture"
    by (simp add: sample_world_rgb_def)
  have b: "border_calls (ctrl sample_world_texture) =
             [gl_rect_2d \<lparr>mLeft = 0, mTop = 100, mRight = 100, mBottom = 0\<rparr> LLColor4_black False]"
    by (simp add: border_calls_def sample_defs)
  have r: "working_rect (ctrl sample_world_texture) =
             \<lparr>mLeft = 1, mTop = 99, mRight = 99, mBottom = 1\<rparr>"
    by (simp add: working_rect_def stretch_def sample_defs)
  have a: "draw_alpha (ctrl sample_world_texture) = 1"
    by (simp add: draw_alpha_def sample_defs)
  have l: "loading_text sample_env (ctrl sample_world_texture) =
             renderUTF8 ''Loading...'' 0 4 74 LLColor4_white LEFT BASELINE DROP_SHADOW"
    by (simp add: loading_text_def r) (simp add: sample_defs sample_llfloor_small)
  have i: "blit (ctrl sample_world_texture) =
             gl_draw_scaled_image 1 1 98 98 (Some 1) (ModAlpha UI_VERTEX_COLOR 1)"
    by (simp add: blit_def r a getWidth_def getHeight_def) (simp add: sample_defs)
  from c draw_checkerboard [OF t, of sample_env]
  have p: "\<exists>w'. draw sample_env sample_world_texture = Inr w' \<and>
      issued sample_world_texture w' =
        [gl_rect_2d \<lparr>mLeft = 0, mTop = 100, mRight = 100, mBottom = 0\<rparr> LLColor4_black False,
         gl_rect_2d_checkerboard \<lparr>mLeft = 1, mTop = 99, mRight = 99, mBottom = 1\<rparr> 1,
         gl_draw_scaled_image 1 1 98 98 (Some 1) (ModAlpha UI_VERTEX_COLOR 1),
         renderUTF8 ''Loading...'' 0 4 74 LLColor4_white LEFT BASELINE DROP_SHADOW,
         LLUICtrl_draw] \<and>
      list_ex is_checkerboard (issued sample_world_texture w')"
    by (simp add: o b r a l i)
  from c' draw_checkerboard [OF t', of sample_env]
  have n: "\<exists>w'. draw sample_env sample_world_rgb = Inr w' \<and>
      issued sample_world_rgb w' =
        [gl_rect_2d \<lparr>mLeft = 0, mTop = 100, mRight = 100, mBottom = 0\<rparr> LLColor4_black False,
         gl_draw_scaled_image 1 1 98 98 (Some 1) (ModAlpha UI_VERTEX_COLOR 1),
         renderUTF8 ''Loading...'' 0 4 74 LLColor4_white LEFT BASELINE DROP_SHADOW,
         LLUICtrl_draw] \<and>
      \<not> list_ex is_checkerboard (issued sample_world_rgb w')"
    by (simp add: o' s b r a l i)
  from t c t' c' p n show ?thesis by simp
qed

text \<open>
  C6. \<open>handleHover\<close> on an interactable and enabled widget sets the hand cursor and
  returns true; otherwise it returns what the base class's handler returns and issues no
  call. So it both sets the hand cursor and returns true if and only if the widget is
  interactable and enabled.
\<close>

theorem handleHover_hand_cursor:
  "(if mInteractable (ctrl w) \<and> getEnabled (ctrl w)
    then handleHover e x y msk w = (True, issue [setCursor UI_CURSOR_HAND] w)
    else handleHover e x y msk w = (LLUICtrl_handleHover e x y msk, w)) \<and>
   (fst (handleHover e x y msk w) \<and>
    issued w (snd (handleHover e x y msk w)) = [setCursor UI_CURSOR_HAND]
    \<longleftrightarrow> mInteractable (ctrl w) \<and> getEnabled (ctrl w))"
  by (simp add: handleHover_def issue_def issued_def)

theorem handleHover_hand_cursor_witness:
  "mInteractable (ctrl sample_world) \<and> getEnabled (ctrl sample_world) \<and>
   handleHover sample_env 5 5 0 sample_world =
     (True, issue [setCursor UI_CURSOR_HAND] sample_world) \<and>
   issued sample_world (snd (handleHover sample_env 5 5 0 sample_world)) =
     [setCursor UI_CURSOR_HAND] \<and>
   \<not> mInteractable (ctrl sample_world_plain) \<and>
   handleHover sample_env 5 5 0 sample_world_plain =
     (LLUICtrl_handleHover sample_env 5 5 0, sample_world_plain) \<and>
   issued sample_world_plain (snd (handleHover sample_env 5 5 0 sample_world_plain)) = []"
proof -
  have a: "mInteractable (ctrl sample_world) \<and> getEnabled (ctrl sample_world)"
    by (simp add: sample_defs)
  have b: "\<not> mInteractable (ctrl sample_world_plain)"
    by (simp add: sample_world_plain_def sample_defs)
  have c: "issued sample_world_plain sample_world_plain = []"
    by (simp add: issued_def)
  show ?thesis
    using a b c handleHover_hand_cursor [of sample_world sample_env 5 5 0]
      handleHover_hand_cursor [of sample_world_plain sample_env 5 5 0]
    by (auto simp add: issued_def issue_def)
qed

text \<open>
  C7. With both handles null, the image step of \<open>draw\<close> is exactly the fallback: the
  grey fill of the working rectangle at the current alpha and the X across it. They come
  after the outline of the border step (when the border is visible) and before the base
  class's draw, and no call is an image blit, a checkerboard or the loading text.
\<close>

theorem draw_fallback_only:
  assumes "mTexturep (ctrl w) = None" and "mImagep (ctrl w) = None"
  shows "\<exists>w'. draw e w = Inr w' \<and>
     issued w w' =
       border_calls (ctrl w) @
       [gl_rect_2d (working_rect (ctrl w)) (ModAlpha LLColor4_grey (draw_alpha (ctrl w))) True,
        gl_draw_x (working_rect (ctrl w)) LLColor4_black] @
       [LLUICtrl_draw] \<and>
     \<not> list_ex is_image_blit (issued w w') \<and>
     \<not> list_ex is_checkerboard (issued w w') \<and>
     \<not> list_ex is_renderUTF8 (issued w w')"
  using draw_issued_fallback [OF assms, of e]
  by (auto simp add: border_calls_kinds border_calls_def)

theorem draw_fallback_only_witness:
  "mTexturep (ctrl sample_world) = None \<and> mImagep (ctrl sample_world) = None \<and>
   (\<exists>w'. draw sample_env sample_world = Inr w' \<and>
      issued sample_world w' =
        [gl_rect_2d \<lparr>mLeft = 0, mTop = 100, mRight = 100, mBottom = 0\<rparr> LLColor4_black False,
         gl_rect_2d \<lparr>mLeft = 1, mTop = 99, mRight = 99, mBottom = 1\<rparr> (ModAlpha LLColor4_grey 1) True,
         gl_draw_x \<lparr>mLeft = 1, mTop = 99, mRight = 99, mBottom = 1\<rparr> LLColor4_black,
         LLUICtrl_draw] \<and>
      \<not> list_ex is_image_blit (issued sample_world w') \<and>
      \<not> list_ex is_checkerboard (issued sample_world w') \<and>
      \<not> list_ex is_renderUTF8 (issued sample_world w'))"
proof -
  have t: "mTexturep (ctrl sample_world) = None"
    by (simp add: sample_defs)
  have m: "mImagep (ctrl sample_world) = None"
    by (simp add: sample_defs)
  have b: "border_calls (ctrl sample_world) =
             [gl_rect_2d \<lparr>mLeft = 0, mTop = 100, mRight = 100, mBottom = 0\<rparr> LLColor4_black False]"
    by (simp add: border_calls_def sample_defs)
  have r: "working_rect (ctrl sample_world) = \<lparr>mLeft = 1, mTop = 99, mRight = 99, mBottom = 1\<rparr>"
    by (simp add: working_rect_def stretch_def sample_defs)
  have a: "draw_alpha (ctrl sample_world) = 1"
    by (simp add: draw_alpha_def sample_defs)
  show ?thesis
    using t m draw_fallback_only [OF t m, of sample_env] by (simp add: b r a)
qed

text \<open>
  C8. The constructor of the parameter block registers the member \<open>border_visible\<close>
  under the name \<open>show_visible\<close>, with the default false. An option named
  \<open>border_visible\<close> is bound to no member and leaves the block as it was; the option
  named \<open>show_visible\<close> is the one that sets the member.
\<close>

theorem border_visible_registered_name:
  "opt_name (border_visible (Params_Params b c)) = ''show_visible'' \<and>
   opt_value (border_visible (Params_Params b c)) = False \<and>
   set_attribute ''border_visible'' (AttrBool True) (Params_Params b c) = Params_Params b c \<and>
   opt_value (border_visible (set_attribute ''show_visible'' (AttrBool True) (Params_Params b c)))
     = True"
  by (simp add: Params_Params_def Optional_def set_attribute_def provide_def)

text \<open>
  C9. No operation fails: the construction, \<open>setValue\<close> with any value from any state
  and \<open>draw\<close> from any state return a state and never the null-pointer error, and so
  does every lifetime of construction, any sequence of \<open>setValue\<close>, \<open>draw\<close> and
  \<open>handleHover\<close>, and destruction. (\<open>handleHover\<close> and the destructor dereference
  no handle and have no failing branch.)
\<close>

theorem no_operation_fails:
  "(\<exists>w'. LLThumbnailCtrl_ctor e p base ts cs = Inr w') \<and>
   (\<exists>w'. setValue e v w = Inr w') \<and>
   (\<exists>w'. draw e w = Inr w') \<and>
   (\<exists>w'. lifetime e p base ts cs xs = Inr w')"
proof -
  obtain w0 where w0: "LLThumbnailCtrl_ctor e p base ts cs = Inr w0"
    using ctor_total by blast
  obtain w1 where w1: "run_ops e xs w0 = Inr w1"
    using run_ops_total by blast
  from w0 w1 have "lifetime e p base ts cs xs = Inr (LLThumbnailCtrl_dtor w1)"
    by (simp add: lifetime_def)
  with w0 show ?thesis
    using setValue_total [of e v w] draw_total [of e w] by simp
qed

theorem no_operation_fails_witness:
  "(\<exists>w'. LLThumbnailCtrl_ctor sample_env sample_params sample_base (\<lambda>h. sample_texture) [] = Inr w') \<and>
   (\<exists>w'. setValue sample_env (SDMap [(''id'', SDInteger 3)]) sample_world_texture = Inr w') \<and>
   (\<exists>w'. draw sample_env sample_world_texture = Inr w') \<and>
   (\<exists>w'. lifetime sample_env sample_params sample_base (\<lambda>h. sample_texture) []
            [Draw, SetValue (SDString ''icon_foo''), Draw, HandleHover 5 5 0,
             SetValue (SDUUID 0x11111111111111111111111111111111), Draw, SetValue SDUndefined,
             Draw] = Inr w')"
  by (rule no_operation_fails)

text \<open>
  C10. \<open>draw\<close> leaves the image asset identifier, both handles, the value stored in the
  base class and the configuration fields as they were. In the texture store it changes
  only the known draw size of the texture \<open>mTexturep\<close> points to, which becomes the size
  of the working rectangle; with no fetched texture, the store is unchanged.
\<close>

theorem draw_frame:
  "\<exists>w'. draw e w = Inr w' \<and>
     mImageAssetID (ctrl w') = mImageAssetID (ctrl w) \<and>
     mTexturep (ctrl w') = mTexturep (ctrl w) \<and>
     mImagep (ctrl w') = mImagep (ctrl w) \<and>
     getValue (ctrl w') = getValue (ctrl w) \<and>
     mBorderColor (ctrl w') = mBorderColor (ctrl w) \<and>
     mBorderVisible (ctrl w') = mBorderVisible (ctrl w) \<and>
     mInteractable (ctrl w') = mInteractable (ctrl w) \<and>
     mShowLoadingPlaceholder (ctrl w') = mShowLoadingPlaceholder (ctrl w) \<and>
     mPriority (ctrl w') = mPriority (ctrl w) \<and>
     mLoadingPlaceholderString (ctrl w') = mLoadingPlaceholderString (ctrl w) \<and>
     textures w' =
       (case mTexturep (ctrl w) of
          None \<Rightarrow> textures w
        | Some h \<Rightarrow>
            (textures w)(h := (textures w h)
               \<lparr>mKnownDrawWidth := getWidth (working_rect (ctrl w)),
                mKnownDrawHeight := getHeight (working_rect (ctrl w))\<rparr>))"
proof -
  obtain w' where d: "draw e w = Inr w'"
    using draw_total by blast
  from draw_ctrl [OF d] have c: "ctrl w' = ctrl (after_border w)" .
  have t: "textures w' =
       (case mTexturep (ctrl w) of
          None \<Rightarrow> textures w
        | Some h \<Rightarrow>
            (textures w)(h := (textures w h)
               \<lparr>mKnownDrawWidth := getWidth (working_rect (ctrl w)),
                mKnownDrawHeight := getHeight (working_rect (ctrl w))\<rparr>))"
  proof (cases "mTexturep (ctrl w)")
    case None
    with d show ?thesis
      by (cases "mImagep (ctrl w)")
        (auto simp add: draw_fallback draw_image issue_def after_border_textures)
  next
    case (Some h)
    with d show ?thesis
      by (auto simp add: draw_texture issue_def after_border_textures setKnownDrawSize_def)
  qed
  from d c t show ?thesis
    by (simp add: after_border_ctrl)
qed

theorem draw_frame_witness:
  "\<exists>w'. draw sample_env sample_world_texture = Inr w' \<and>
     mImageAssetID (ctrl w') = 0 \<and>
     mTexturep (ctrl w') = Some 1 \<and>
     mImagep (ctrl w') = None \<and>
     getValue (ctrl w') = SDUndefined \<and>
     mBorderColor (ctrl w') = LLColor4_black \<and>
     mBorderVisible (ctrl w') \<and>
     mInteractable (ctrl w') \<and>
     mShowLoadingPlaceholder (ctrl w') \<and>
     mPriority (ctrl w') = BOOST_PREVIEW \<and>
     mLoadingPlaceholderString (ctrl w') = ''Loading...'' \<and>
     textures w' = (\<lambda>h. sample_texture)(1 := sample_texture\<lparr>mKnownDrawWidth := 98, mKnownDrawHeight := 98\<rparr>)"
proof -
  have v: "mImageAssetID (ctrl sample_world_texture) = 0"
      "mTexturep (ctrl sample_world_texture) = Some 1"
      "mImagep (ctrl sample_world_texture) = None"
      "getValue (ctrl sample_world_texture) = SDUndefined"
      "mBorderColor (ctrl sample_world_texture) = LLColor4_black"
      "mBorderVisible (ctrl sample_world_texture) = True"
      "mInteractable (ctrl sample_world_texture) = True"
      "mShowLoadingPlaceholder (ctrl sample_world_texture) = True"
      "mPriority (ctrl sample_world_texture) = BOOST_PREVIEW"
      "mLoadingPlaceholderString (ctrl sample_world_texture) = ''Loading...''"
      "textures sample_world_texture = (\<lambda>h. sample_texture)"
    by (simp_all add: sample_world_texture_def sample_world_def)
  have k: "getWidth (working_rect (ctrl sample_world_texture)) = 98"
      "getHeight (working_rect (ctrl sample_world_texture)) = 98"
    by (simp_all add: getWidth_def getHeight_def working_rect_def stretch_def
        sample_world_texture_def sample_world_def)
  show ?thesis
    using draw_frame [of sample_env sample_world_texture] unfolding v k by simp
qed

end
